theory Spec2Isabelle
  imports Complex_Main "HOL-Library.Multiset"
begin

section \<open>Data model: the schema of the migration\<close>

text \<open>
  The schema is the SQL migration that follows the component in
  \<^verbatim>\<open>src/pages/ListingDetail.tsx\<close> (from line 351). Identifiers and
  timestamps are opaque to every function modelled here, so a \<^verbatim>\<open>UUID\<close> is a
  natural number and a \<^verbatim>\<open>TIMESTAMP WITH TIME ZONE\<close> an integer. A nullable
  column is an \<open>option\<close>. \<^verbatim>\<open>DECIMAL(10,2)\<close> and JavaScript numbers are
  real numbers (floating-point rounding is not modelled).
\<close>

type_synonym uuid = nat
type_synonym timestamp = int

datatype app_role = Admin | Subadmin | User

datatype listing_type = Hotel | Trip | Car

datatype booking_status = Pending | Accepted | Rejected

text \<open>A \<^verbatim>\<open>DATE\<close>, and the value \<^verbatim>\<open>YYYY-MM-DD\<close> of a date input.\<close>

record date =
  year :: int
  month :: int
  day :: int

record profile =
  pr_id :: uuid
  pr_user_id :: uuid
  full_name :: string
  email :: string
  phone :: "string option"
  pr_created_at :: timestamp
  pr_updated_at :: timestamp

record user_role =
  ur_id :: uuid
  ur_user_id :: uuid
  role :: app_role
  ur_created_at :: timestamp

record listing =
  l_id :: uuid
  owner_id :: uuid
  l_type :: listing_type
  title :: string
  description :: "string option"
  price :: real
  location :: string
  image_url :: "string option"
  amenities :: "string list option"
  available_from :: "string option"
  available_to :: "string option"
  max_guests :: "int option"
  is_active :: "bool option"
  l_created_at :: timestamp
  l_updated_at :: timestamp

record booking =
  b_id :: uuid
  user_id :: uuid
  listing_id :: uuid
  check_in :: date
  check_out :: date
  guests :: int
  total_price :: real
  status :: booking_status
  special_requests :: "string option"
  admin_notes :: "string option"
  b_created_at :: timestamp
  b_updated_at :: timestamp

text \<open>The four tables. A table is the list of its rows, in insertion order.\<close>

record db =
  profiles :: "profile list"
  user_roles :: "user_role list"
  listings :: "listing list"
  bookings :: "booking list"

text \<open>
  An operation returns \<open>Inr\<close> of the database it leaves, or \<open>Inl\<close> of an
  error, and then the database is as it was (every operation here is one request, which
  the database runs as one transaction). The first four errors are the client's own
  refusals: the ``Access Denied'' screen of \<^verbatim>\<open>CreateListing\<close>, and the
  three error toasts of \<^verbatim>\<open>handleSubmit\<close> and \<^verbatim>\<open>handleBooking\<close>. The
  others are the errors the database raises for a violated policy or constraint.
\<close>

datatype error =
    AccessDenied
  | RequiredFieldsMissing
  | SignInRequired
  | DatesRequired
  | RowLevelSecurityViolation
  | NotNullViolation
  | UniqueViolation
  | ForeignKeyViolation
  | NumericValueOutOfRange

section \<open>Role store\<close>

text \<open>
  \<^verbatim>\<open>has_role(_user_id, _role)\<close>: \<^verbatim>\<open>SELECT EXISTS (SELECT 1 FROM user_roles
  WHERE user_id = _user_id AND role = _role)\<close>. The argument is \<^verbatim>\<open>auth.uid()\<close>
  in every policy, which is \<^verbatim>\<open>NULL\<close> (here \<open>None\<close>) for an anonymous caller;
  \<^verbatim>\<open>user_id = NULL\<close> selects no row.
\<close>

definition has_role :: "db \<Rightarrow> uuid option \<Rightarrow> app_role \<Rightarrow> bool" where
  "has_role d uid r = list_ex (\<lambda>x. uid = Some (ur_user_id x) \<and> role x = r) (user_roles d)"

text \<open>The \<^verbatim>\<open>CASE role WHEN 'admin' THEN 1 WHEN 'subadmin' THEN 2 WHEN 'user' THEN 3 END\<close>
  of \<^verbatim>\<open>get_user_role\<close>.\<close>

fun role_rank :: "app_role \<Rightarrow> nat" where
  "role_rank Admin = 1"
| "role_rank Subadmin = 2"
| "role_rank User = 3"

text \<open>The roles assigned to a user: \<^verbatim>\<open>SELECT role FROM user_roles WHERE user_id = _user_id\<close>.\<close>

definition roles_of :: "db \<Rightarrow> uuid option \<Rightarrow> app_role list" where
  "roles_of d uid = map role (filter (\<lambda>x. uid = Some (ur_user_id x)) (user_roles d))"

text \<open>
  \<^verbatim>\<open>get_user_role(_user_id)\<close>: the rows of the user ordered by rank,
  \<^verbatim>\<open>LIMIT 1\<close>. A SQL function whose query selects no row returns \<^verbatim>\<open>NULL\<close>.
\<close>

definition get_user_role :: "db \<Rightarrow> uuid option \<Rightarrow> app_role option" where
  "get_user_role d uid =
     (case sort_key role_rank (roles_of d uid) of
        [] \<Rightarrow> None
      | r # _ \<Rightarrow> Some r)"

section \<open>Row-level security policies\<close>

text \<open>
  Each definition is one \<^verbatim>\<open>CREATE POLICY\<close>, or the disjunction of the permissive
  policies that apply to one command on one table. \<open>auth\<close> is \<^verbatim>\<open>auth.uid()\<close>.
\<close>

text \<open>``Anyone can view active listings'': \<^verbatim>\<open>USING (is_active = true)\<close>.\<close>

definition anyone_can_view_active :: "listing \<Rightarrow> bool" where
  "anyone_can_view_active l = (is_active l = Some True)"

text \<open>``Owners can manage their listings'': \<^verbatim>\<open>FOR ALL USING (auth.uid() = owner_id)\<close>.\<close>

definition owners_can_manage :: "uuid option \<Rightarrow> listing \<Rightarrow> bool" where
  "owners_can_manage auth l = (auth = Some (owner_id l))"

text \<open>``Admins can manage all listings'': \<^verbatim>\<open>FOR ALL USING (has_role(auth.uid(), 'admin'))\<close>.\<close>

definition admins_can_manage :: "db \<Rightarrow> uuid option \<Rightarrow> bool" where
  "admins_can_manage d auth = has_role d auth Admin"

text \<open>A \<^verbatim>\<open>SELECT\<close> on \<^verbatim>\<open>listings\<close> sees the rows that one of the three policies admits.\<close>

definition listings_select_policy :: "db \<Rightarrow> uuid option \<Rightarrow> listing \<Rightarrow> bool" where
  "listings_select_policy d auth l =
     (anyone_can_view_active l \<or> owners_can_manage auth l \<or> admins_can_manage d auth)"

text \<open>
  An \<^verbatim>\<open>INSERT\<close> into \<^verbatim>\<open>listings\<close> is checked against the two
  \<^verbatim>\<open>FOR ALL\<close> policies (a policy with no \<^verbatim>\<open>WITH CHECK\<close> checks new rows with
  its \<^verbatim>\<open>USING\<close> expression). No policy mentions the role \<^verbatim>\<open>subadmin\<close>.
\<close>

definition listings_insert_check :: "db \<Rightarrow> uuid option \<Rightarrow> uuid \<Rightarrow> bool" where
  "listings_insert_check d auth owner = (auth = Some owner \<or> has_role d auth Admin)"

text \<open>
  \<^verbatim>\<open>EXISTS (SELECT 1 FROM listings WHERE listings.id = bookings.listing_id AND
  listings.owner_id = auth.uid())\<close>, the condition of both ``Listing owners'' policies
  on \<^verbatim>\<open>bookings\<close>. (The rows of the subquery are the caller's own listings, which
  \<open>owners_can_manage\<close> always shows to the caller.)
\<close>

definition owns_listing_of :: "db \<Rightarrow> uuid option \<Rightarrow> booking \<Rightarrow> bool" where
  "owns_listing_of d auth b =
     list_ex (\<lambda>l. l_id l = listing_id b \<and> auth = Some (owner_id l)) (listings d)"

text \<open>The three \<^verbatim>\<open>FOR SELECT\<close> policies on \<^verbatim>\<open>bookings\<close>.\<close>

definition bookings_select_policy :: "db \<Rightarrow> uuid option \<Rightarrow> booking \<Rightarrow> bool" where
  "bookings_select_policy d auth b =
     (auth = Some (user_id b) \<or> owns_listing_of d auth b \<or> has_role d auth Admin)"

text \<open>``Users can create bookings'': \<^verbatim>\<open>FOR INSERT WITH CHECK (auth.uid() = user_id)\<close>.\<close>

definition bookings_insert_check :: "uuid option \<Rightarrow> uuid \<Rightarrow> bool" where
  "bookings_insert_check auth uid = (auth = Some uid)"

text \<open>
  The two \<^verbatim>\<open>FOR UPDATE\<close> policies on \<^verbatim>\<open>bookings\<close>: ``Listing owners can
  update bookings for their listings'' and ``Admins can update all bookings''. Neither
  reads the row's \<^verbatim>\<open>status\<close> or its \<^verbatim>\<open>user_id\<close>.
\<close>

definition bookings_update_policy :: "db \<Rightarrow> uuid option \<Rightarrow> booking \<Rightarrow> bool" where
  "bookings_update_policy d auth b = (owns_listing_of d auth b \<or> has_role d auth Admin)"

section \<open>Column types\<close>

text \<open>
  A value stored in a \<^verbatim>\<open>DECIMAL(10,2)\<close> column is rounded to two places, half away
  from zero, and refused when it then needs more than eight digits before the point.
\<close>

definition numeric_10_2 :: "real \<Rightarrow> real option" where
  "numeric_10_2 x =
     (let c = (if x < 0 then - \<lfloor>- x * 100 + 1 / 2\<rfloor> else \<lfloor>x * 100 + 1 / 2\<rfloor>)
      in if 10 ^ 10 \<le> \<bar>c\<bar> then None else Some (real_of_int c / 100))"

text \<open>A number with at most two decimal places, as a \<^verbatim>\<open>DECIMAL(10,2)\<close> column
  holds.\<close>

definition has_scale_2 :: "real \<Rightarrow> bool" where
  "has_scale_2 x = (real_of_int \<lfloor>x * 100\<rfloor> = x * 100)"

text \<open>An \<^verbatim>\<open>INTEGER\<close> column holds 32 bits.\<close>

definition integer_4 :: "int \<Rightarrow> bool" where
  "integer_4 n = (- (2 ^ 31) \<le> n \<and> n < 2 ^ 31)"

section \<open>Listing registry\<close>

text \<open>The rows of \<^verbatim>\<open>listings\<close> that \<^verbatim>\<open>supabase.from('listings').select('*')\<close>
  can see.\<close>

definition select_listings :: "db \<Rightarrow> uuid option \<Rightarrow> listing list" where
  "select_listings d auth = filter (listings_select_policy d auth) (listings d)"

text \<open>
  \<^verbatim>\<open>fetchListings\<close> of \<^verbatim>\<open>Home.tsx\<close>:
  \<^verbatim>\<open>.select('*').eq('is_active', true).order('created_at', { ascending: false })\<close>.
  SQL leaves the order of rows with equal \<^verbatim>\<open>created_at\<close> open; the model fixes one.
\<close>

definition fetchListings :: "db \<Rightarrow> uuid option \<Rightarrow> listing list" where
  "fetchListings d auth =
     rev (sort_key l_created_at (filter (\<lambda>l. is_active l = Some True) (select_listings d auth)))"

text \<open>
  The listings part of \<^verbatim>\<open>fetchDashboardData\<close> of the dashboard:
  \<^verbatim>\<open>supabase.from('listings').select('*')\<close>, with
  \<^verbatim>\<open>.eq('owner_id', user?.id)\<close> for a subadmin.
\<close>

definition fetchDashboardListings :: "db \<Rightarrow> uuid option \<Rightarrow> bool \<Rightarrow> listing list" where
  "fetchDashboardListings d user isSubAdmin =
     (let listingsQuery = select_listings d user
      in if isSubAdmin then filter (\<lambda>l. user = Some (owner_id l)) listingsQuery
         else listingsQuery)"

text \<open>
  The state of the form of \<^verbatim>\<open>CreateListing\<close>. Every field is the text of an input
  (empty when untouched); \<open>f_type\<close> is the value of the select box, which is empty or one
  of the three listing types.
\<close>

record formData =
  f_type :: "listing_type option"
  f_title :: string
  f_description :: string
  f_location :: string
  f_price :: string
  f_image_url :: string
  f_max_guests :: string
  f_available_from :: string
  f_available_to :: string

text \<open>The object \<^verbatim>\<open>listingData\<close> that \<^verbatim>\<open>handleSubmit\<close> sends.\<close>

record listing_data =
  ld_type :: listing_type
  ld_title :: string
  ld_description :: "string option"
  ld_location :: string
  ld_price :: "real option"
  ld_image_url :: "string option"
  ld_max_guests :: "int option"
  ld_available_from :: "string option"
  ld_available_to :: "string option"
  ld_amenities :: "string list option"
  ld_owner_id :: uuid
  ld_is_active :: bool

text \<open>\<^verbatim>\<open>s || null\<close> on a string: the empty string is falsy.\<close>

definition or_null :: "string \<Rightarrow> string option" where
  "or_null s = (if s = [] then None else Some s)"

text \<open>
  The construction of \<^verbatim>\<open>listingData\<close> in \<^verbatim>\<open>handleSubmit\<close>. JavaScript's
  \<^verbatim>\<open>parseFloat\<close> and \<^verbatim>\<open>parseInt\<close> are parameters; they return
  \<open>None\<close> for \<^verbatim>\<open>NaN\<close>, which is sent as \<^verbatim>\<open>null\<close>.
\<close>

definition listingData ::
  "(string \<Rightarrow> real option) \<Rightarrow> (string \<Rightarrow> int option) \<Rightarrow> listing_type \<Rightarrow> formData \<Rightarrow>
     string list \<Rightarrow> uuid \<Rightarrow> listing_data" where
  "listingData parseFloat parseInt ty fd amen uid =
     \<lparr> ld_type = ty,
       ld_title = f_title fd,
       ld_description = or_null (f_description fd),
       ld_location = f_location fd,
       ld_price = parseFloat (f_price fd),
       ld_image_url = or_null (f_image_url fd),
       ld_max_guests = (if f_max_guests fd \<noteq> [] then parseInt (f_max_guests fd) else None),
       ld_available_from = or_null (f_available_from fd),
       ld_available_to = or_null (f_available_to fd),
       ld_amenities = (if 0 < length amen then Some amen else None),
       ld_owner_id = uid,
       ld_is_active = True \<rparr>"

text \<open>
  \<^verbatim>\<open>supabase.from('listings').insert([listingData])\<close>: the value of \<^verbatim>\<open>price\<close>
  is converted to its column type, the new row is checked against the insert policies,
  then against \<^verbatim>\<open>NOT NULL\<close>, the range of \<^verbatim>\<open>max_guests\<close> and the primary
  key. \<open>new_id\<close> is the value of \<^verbatim>\<open>gen_random_uuid()\<close> and \<open>now\<close> that of
  \<^verbatim>\<open>now()\<close>.
\<close>

definition insert_listing ::
  "db \<Rightarrow> uuid option \<Rightarrow> uuid \<Rightarrow> timestamp \<Rightarrow> listing_data \<Rightarrow> error + db" where
  "insert_listing d auth new_id now ld =
     (case ld_price ld of
        None \<Rightarrow>
          (if listings_insert_check d auth (ld_owner_id ld) then Inl NotNullViolation
           else Inl RowLevelSecurityViolation)
      | Some p \<Rightarrow>
          (case numeric_10_2 p of
             None \<Rightarrow> Inl NumericValueOutOfRange
           | Some p' \<Rightarrow>
               if \<not> list_all integer_4 (case ld_max_guests ld of None \<Rightarrow> [] | Some n \<Rightarrow> [n])
                 then Inl NumericValueOutOfRange
               else if \<not> listings_insert_check d auth (ld_owner_id ld)
                 then Inl RowLevelSecurityViolation
               else if new_id \<in> set (map l_id (listings d)) then Inl UniqueViolation
               else Inr (d\<lparr>listings := listings d @
                 [\<lparr> l_id = new_id,
                    owner_id = ld_owner_id ld,
                    l_type = ld_type ld,
                    title = ld_title ld,
                    description = ld_description ld,
                    price = p',
                    location = ld_location ld,
                    image_url = ld_image_url ld,
                    amenities = ld_amenities ld,
                    available_from = ld_available_from ld,
                    available_to = ld_available_to ld,
                    max_guests = ld_max_guests ld,
                    is_active = Some (ld_is_active ld),
                    l_created_at = now,
                    l_updated_at = now \<rparr>]\<rparr>)))"

text \<open>
  \<^verbatim>\<open>handleSubmit\<close> of \<^verbatim>\<open>CreateListing\<close>. \<open>uid\<close> is \<^verbatim>\<open>user.id\<close>, the
  signed-in user, who is also \<^verbatim>\<open>auth.uid()\<close> of the request.
\<close>

definition handleSubmit ::
  "(string \<Rightarrow> real option) \<Rightarrow> (string \<Rightarrow> int option) \<Rightarrow> db \<Rightarrow> uuid \<Rightarrow> formData \<Rightarrow>
     string list \<Rightarrow> uuid \<Rightarrow> timestamp \<Rightarrow> error + db" where
  "handleSubmit parseFloat parseInt d uid fd amen new_id now =
     (case f_type fd of
        None \<Rightarrow> Inl RequiredFieldsMissing
      | Some ty \<Rightarrow>
          if f_title fd = [] \<or> f_location fd = [] \<or> f_price fd = []
            then Inl RequiredFieldsMissing
          else insert_listing d (Some uid) new_id now
                 (listingData parseFloat parseInt ty fd amen uid))"

text \<open>
  The component \<^verbatim>\<open>CreateListing\<close>: \<open>user\<close> and \<open>userRole\<close> are what
  \<^verbatim>\<open>useAuth()\<close> gives it. Unless the role is \<^verbatim>\<open>admin\<close> or
  \<^verbatim>\<open>subadmin\<close> it renders ``Access Denied'' and the form, with
  \<^verbatim>\<open>handleSubmit\<close>, does not exist.
\<close>

definition CreateListing ::
  "(string \<Rightarrow> real option) \<Rightarrow> (string \<Rightarrow> int option) \<Rightarrow> db \<Rightarrow> uuid option \<Rightarrow>
     app_role option \<Rightarrow> formData \<Rightarrow> string list \<Rightarrow> uuid \<Rightarrow> timestamp \<Rightarrow> error + db" where
  "CreateListing parseFloat parseInt d user userRole fd amen new_id now =
     (let isAdmin = (userRole = Some Admin); isSubAdmin = (userRole = Some Subadmin)
      in case user of
           None \<Rightarrow> Inl AccessDenied
         | Some uid \<Rightarrow>
             if \<not> isAdmin \<and> \<not> isSubAdmin then Inl AccessDenied
             else handleSubmit parseFloat parseInt d uid fd amen new_id now)"

section \<open>Booking lifecycle\<close>

text \<open>
  \<^verbatim>\<open>new Date(s).getTime()\<close> for a date-only string \<^verbatim>\<open>YYYY-MM-DD\<close>: the
  milliseconds from 1970-01-01 to midnight UTC of that day, by the usual day count of
  the Gregorian calendar.
\<close>

definition days_from_civil :: "date \<Rightarrow> int" where
  "days_from_civil dt =
     (let y = (if month dt \<le> 2 then year dt - 1 else year dt);
          era = y div 400;
          yoe = y - era * 400;
          mp = (if 2 < month dt then month dt - 3 else month dt + 9);
          doy = (153 * mp + 2) div 5 + day dt - 1;
          doe = yoe * 365 + yoe div 4 - yoe div 100 + doy
      in era * 146097 + doe - 719468)"

definition getTime :: "date \<Rightarrow> int" where
  "getTime dt = days_from_civil dt * 86400000"

text \<open>
  \<^verbatim>\<open>calculateTotalPrice\<close> of \<^verbatim>\<open>ListingDetail\<close>. The component's state
  \<open>listing\<close> is \<open>None\<close> until a listing is loaded; \<open>checkIn\<close> and
  \<open>checkOut\<close> are \<open>None\<close> while the date input is empty.
\<close>

definition calculateTotalPrice :: "listing option \<Rightarrow> date option \<Rightarrow> date option \<Rightarrow> real" where
  "calculateTotalPrice listing checkIn checkOut =
     (case (listing, checkIn, checkOut) of
        (Some l, Some ci, Some co) \<Rightarrow>
          (let startDate = getTime ci;
               endDate = getTime co;
               diffTime = \<bar>endDate - startDate\<bar>;
               diffDays = \<lceil>real_of_int diffTime / (1000 * 60 * 60 * 24)\<rceil>
           in real_of_int diffDays * price l)
      | _ \<Rightarrow> 0)"

text \<open>
  \<^verbatim>\<open>supabase.from('bookings').insert({...})\<close>. \<open>g\<close> is the guest count, \<open>None\<close>
  when it is \<^verbatim>\<open>NaN\<close> (sent as \<^verbatim>\<open>null\<close>). The columns the client does not
  send take their defaults: \<^verbatim>\<open>status\<close> is \<^verbatim>\<open>'pending'\<close>. The table has
  no \<^verbatim>\<open>CHECK\<close> constraint.
\<close>

definition insert_booking ::
  "db \<Rightarrow> uuid option \<Rightarrow> uuid \<Rightarrow> timestamp \<Rightarrow> uuid \<Rightarrow> uuid \<Rightarrow> date \<Rightarrow> date \<Rightarrow> int option \<Rightarrow>
     real \<Rightarrow> string option \<Rightarrow> error + db" where
  "insert_booking d auth new_id now uid lid ci co g amount sr =
     (case numeric_10_2 amount of
        None \<Rightarrow> Inl NumericValueOutOfRange
      | Some amount' \<Rightarrow>
          if \<not> list_all integer_4 (case g of None \<Rightarrow> [] | Some n \<Rightarrow> [n])
            then Inl NumericValueOutOfRange
          else if \<not> bookings_insert_check auth uid then Inl RowLevelSecurityViolation
          else
            (case g of
               None \<Rightarrow> Inl NotNullViolation
             | Some n \<Rightarrow>
                 if new_id \<in> set (map b_id (bookings d)) then Inl UniqueViolation
                 else if lid \<notin> set (map l_id (listings d)) then Inl ForeignKeyViolation
                 else Inr (d\<lparr>bookings := bookings d @
                   [\<lparr> b_id = new_id,
                      user_id = uid,
                      listing_id = lid,
                      check_in = ci,
                      check_out = co,
                      guests = n,
                      total_price = amount',
                      status = Pending,
                      special_requests = sr,
                      admin_notes = None,
                      b_created_at = now,
                      b_updated_at = now \<rparr>]\<rparr>)))"

text \<open>
  \<^verbatim>\<open>handleBooking\<close> of \<^verbatim>\<open>ListingDetail\<close>. \<open>user\<close> is the signed-in user
  (\<^verbatim>\<open>user.id\<close>, also \<^verbatim>\<open>auth.uid()\<close> of the request), \<open>nGuests\<close> the
  component's state \<^verbatim>\<open>guests\<close>, set by \<^verbatim>\<open>setGuests(parseInt(e.target.value))\<close>.
\<close>

definition handleBooking ::
  "db \<Rightarrow> uuid option \<Rightarrow> listing option \<Rightarrow> date option \<Rightarrow> date option \<Rightarrow> int option \<Rightarrow>
     string \<Rightarrow> uuid \<Rightarrow> timestamp \<Rightarrow> error + db" where
  "handleBooking d user listing checkIn checkOut nGuests specialRequests new_id now =
     (case (user, listing) of
        (Some uid, Some l) \<Rightarrow>
          (case (checkIn, checkOut) of
             (Some ci, Some co) \<Rightarrow>
               (let totalPrice = calculateTotalPrice listing checkIn checkOut
                in insert_booking d user new_id now uid (l_id l) ci co nGuests totalPrice
                     (or_null specialRequests))
           | _ \<Rightarrow> Inl DatesRequired)
      | _ \<Rightarrow> Inl SignInRequired)"

text \<open>
  \<^verbatim>\<open>handleBookingAction\<close> of the dashboard:
  \<^verbatim>\<open>.update({ status }).eq('id', bookingId)\<close>. The update reaches the rows with
  that id which the update policies admit; a row it does not reach is left as it is,
  and that is no error. The trigger \<^verbatim>\<open>update_bookings_updated_at\<close> stamps each
  updated row.
\<close>

definition handleBookingAction ::
  "db \<Rightarrow> uuid option \<Rightarrow> uuid \<Rightarrow> booking_status \<Rightarrow> timestamp \<Rightarrow> error + db" where
  "handleBookingAction d auth bookingId st now =
     Inr (d\<lparr>bookings :=
       map (\<lambda>b. if b_id b = bookingId \<and> bookings_update_policy d auth b
                 then b\<lparr>status := st, b_updated_at := now\<rparr> else b)
           (bookings d)\<rparr>)"

text \<open>
  The decisions a booking's card on the dashboard offers: the Accept and Reject buttons
  are rendered under \<^verbatim>\<open>booking.status === 'pending' &&\<close>.
\<close>

definition booking_card_actions :: "booking \<Rightarrow> booking_status list" where
  "booking_card_actions b = (if status b = Pending then [Accepted, Rejected] else [])"

section \<open>Provisioning\<close>

text \<open>The columns of the new \<^verbatim>\<open>auth.users\<close> row that the trigger reads;
  \<open>nu_full_name\<close> is \<^verbatim>\<open>raw_user_meta_data ->> 'full_name'\<close>.\<close>

record new_user =
  nu_id :: uuid
  nu_email :: "string option"
  nu_full_name :: "string option"

text \<open>The pairs that \<^verbatim>\<open>UNIQUE(user_id, role)\<close> keeps distinct.\<close>

definition role_pairs :: "db \<Rightarrow> (uuid \<times> app_role) list" where
  "role_pairs d = map (\<lambda>x. (ur_user_id x, role x)) (user_roles d)"

text \<open>
  The trigger function \<^verbatim>\<open>handle_new_user\<close>: two plain \<^verbatim>\<open>INSERT\<close>s, neither
  with \<^verbatim>\<open>ON CONFLICT\<close>. An error in either aborts both. \<open>pid\<close> and \<open>rid\<close>
  are the generated primary keys.
\<close>

definition handle_new_user ::
  "db \<Rightarrow> new_user \<Rightarrow> uuid \<Rightarrow> uuid \<Rightarrow> timestamp \<Rightarrow> error + db" where
  "handle_new_user d NEW pid rid now =
     (case nu_email NEW of
        None \<Rightarrow> Inl NotNullViolation
      | Some e \<Rightarrow>
          if pid \<in> set (map pr_id (profiles d)) \<or> nu_id NEW \<in> set (map pr_user_id (profiles d))
            then Inl UniqueViolation
          else if rid \<in> set (map ur_id (user_roles d)) \<or> (nu_id NEW, User) \<in> set (role_pairs d)
            then Inl UniqueViolation
          else Inr (d\<lparr>profiles := profiles d @
                       [\<lparr> pr_id = pid,
                          pr_user_id = nu_id NEW,
                          full_name = (case nu_full_name NEW of None \<Rightarrow> ''User'' | Some n \<Rightarrow> n),
                          email = e,
                          phone = None,
                          pr_created_at = now,
                          pr_updated_at = now \<rparr>],
                     user_roles := user_roles d @
                       [\<lparr> ur_id = rid, ur_user_id = nu_id NEW, role = User, ur_created_at = now \<rparr>]\<rparr>))"

section \<open>Example data\<close>

text \<open>
  A small database: user 7 holds the roles \<^verbatim>\<open>user\<close> and \<^verbatim>\<open>subadmin\<close> and
  owns the one listing, user 9 is an admin, user 6 holds the role \<^verbatim>\<open>user\<close> only, user 8
  has no role row.
\<close>

definition ex_listing :: listing where
  "ex_listing =
     \<lparr> l_id = 1, owner_id = 7, l_type = Hotel, title = ''Harbour Inn'', description = None,
       price = 100, location = ''Oslo'', image_url = None, amenities = None,
       available_from = None, available_to = None, max_guests = Some 2,
       is_active = Some True, l_created_at = 5, l_updated_at = 5 \<rparr>"

definition ex_db :: db where
  "ex_db =
     \<lparr> profiles = [],
       user_roles =
         [\<lparr>ur_id = 10, ur_user_id = 7, role = User, ur_created_at = 0\<rparr>,
          \<lparr>ur_id = 11, ur_user_id = 7, role = Subadmin, ur_created_at = 1\<rparr>,
          \<lparr>ur_id = 12, ur_user_id = 9, role = Admin, ur_created_at = 2\<rparr>,
          \<lparr>ur_id = 13, ur_user_id = 6, role = User, ur_created_at = 3\<rparr>],
       listings = [ex_listing],
       bookings = [] \<rparr>"

text \<open>Two dates, and the booking that user 8 makes of the example listing between them.\<close>

definition jan_1 :: date where
  "jan_1 = \<lparr>year = 2024, month = 1, day = 1\<rparr>"

definition jan_3 :: date where
  "jan_3 = \<lparr>year = 2024, month = 1, day = 3\<rparr>"

definition ex_booking :: booking where
  "ex_booking =
     \<lparr> b_id = 50, user_id = 8, listing_id = 1, check_in = jan_1, check_out = jan_3,
       guests = 2, total_price = 200, status = Pending, special_requests = None,
       admin_notes = None, b_created_at = 99, b_updated_at = 99 \<rparr>"

text \<open>The example database with the booking accepted, and with a booking that the owner of
  the listing made.\<close>

definition ex_db_accepted :: db where
  "ex_db_accepted = ex_db\<lparr>bookings := [ex_booking\<lparr>status := Accepted\<rparr>]\<rparr>"

definition ex_db_own :: db where
  "ex_db_own = ex_db\<lparr>bookings := [ex_booking\<lparr>user_id := 7\<rparr>]\<rparr>"

text \<open>Three listings: the active one, an inactive one of the same owner, and a newer active
  one of the admin.\<close>

definition ex_listing_off :: listing where
  "ex_listing_off = ex_listing\<lparr>l_id := 2, is_active := Some False, l_created_at := 8\<rparr>"

definition ex_listing_new :: listing where
  "ex_listing_new = ex_listing\<lparr>l_id := 3, owner_id := 9, l_created_at := 9\<rparr>"

definition ex_db_listings :: db where
  "ex_db_listings = ex_db\<lparr>listings := [ex_listing, ex_listing_off, ex_listing_new]\<rparr>"

text \<open>A form as user 7 fills it in, with the two parsers on its number fields, and the
  row it creates.\<close>

definition ex_parseFloat :: "string \<Rightarrow> real option" where
  "ex_parseFloat s = (if s = ''120'' then Some 120 else None)"

definition ex_parseInt :: "string \<Rightarrow> int option" where
  "ex_parseInt s = (if s = ''4'' then Some 4 else None)"

definition ex_form :: formData where
  "ex_form =
     \<lparr> f_type = Some Trip, f_title = ''Fjord tour'', f_description = [],
       f_location = ''Bergen'', f_price = ''120'', f_image_url = [], f_max_guests = ''4'',
       f_available_from = ''2024-06-01'', f_available_to = [] \<rparr>"

definition ex_listing_created :: listing where
  "ex_listing_created =
     \<lparr> l_id = 2, owner_id = 7, l_type = Trip, title = ''Fjord tour'', description = None,
       price = 120, location = ''Bergen'', image_url = None, amenities = None,
       available_from = Some ''2024-06-01'', available_to = None, max_guests = Some 4,
       is_active = Some True, l_created_at = 100, l_updated_at = 100 \<rparr>"

text \<open>The same row with a negative price.\<close>

definition ex_listing_negative :: listing where
  "ex_listing_negative = ex_listing_created\<lparr>price := - 5\<rparr>"

text \<open>The new user 8, and the example database after provisioning.\<close>

definition ex_new_user :: new_user where
  "ex_new_user = \<lparr> nu_id = 8, nu_email = Some ''ada@example.org'', nu_full_name = None \<rparr>"

definition ex_db_provisioned :: db where
  "ex_db_provisioned =
     ex_db\<lparr>profiles :=
             [\<lparr> pr_id = 20, pr_user_id = 8, full_name = ''User'', email = ''ada@example.org'',
                phone = None, pr_created_at = 4, pr_updated_at = 4 \<rparr>],
           user_roles := user_roles ex_db @
             [\<lparr>ur_id = 14, ur_user_id = 8, role = User, ur_created_at = 4\<rparr>]\<rparr>"

section \<open>Properties of the role store\<close>

lemma has_role_roles_of: "has_role d uid r \<longleftrightarrow> r \<in> set (roles_of d uid)"
  by (auto simp: has_role_def roles_of_def list_ex_iff)

lemma sort_key_head:
  assumes "sort_key f xs = y # ys"
  shows "y \<in> set xs \<and> (\<forall>z \<in> set xs. f y \<le> f z)"
proof -
  have s: "set (y # ys) = set xs"
    using assms set_sort [of f xs] by simp
  have "sorted (map f (y # ys))"
    using assms sorted_sort_key [of f xs] by simp
  then have "\<forall>z \<in> set (y # ys). f y \<le> f z"
    by auto
  with s show ?thesis
    by auto
qed

lemma get_user_role_None: "get_user_role d uid = None \<longleftrightarrow> roles_of d uid = []"
proof
  assume "get_user_role d uid = None"
  then have "sort_key role_rank (roles_of d uid) = []"
    by (simp add: get_user_role_def split: list.splits)
  then have "set (roles_of d uid) = {}"
    using set_sort [of role_rank "roles_of d uid"] by simp
  then show "roles_of d uid = []"
    by simp
next
  assume "roles_of d uid = []"
  then show "get_user_role d uid = None"
    by (simp add: get_user_role_def)
qed

lemma get_user_role_Some:
  assumes "get_user_role d uid = Some r"
  shows "r \<in> set (roles_of d uid) \<and> (\<forall>r' \<in> set (roles_of d uid). role_rank r \<le> role_rank r')"
proof -
  obtain ys where "sort_key role_rank (roles_of d uid) = r # ys"
    using assms by (auto simp: get_user_role_def split: list.splits)
  then show ?thesis
    by (rule sort_key_head)
qed

lemma get_user_role_Admin: "get_user_role d uid = Some Admin \<longleftrightarrow> has_role d uid Admin"
proof
  assume "get_user_role d uid = Some Admin"
  then show "has_role d uid Admin"
    using get_user_role_Some has_role_roles_of by blast
next
  assume h: "has_role d uid Admin"
  then have m: "Admin \<in> set (roles_of d uid)"
    by (simp add: has_role_roles_of)
  then have "roles_of d uid \<noteq> []"
    by auto
  then obtain r where r: "get_user_role d uid = Some r"
    using get_user_role_None [of d uid] by (cases "get_user_role d uid") auto
  then have "role_rank r \<le> role_rank Admin"
    using get_user_role_Some m by blast
  then have "r = Admin"
    by (cases r) auto
  with r show "get_user_role d uid = Some Admin"
    by simp
qed

lemma get_user_role_chain:
  "get_user_role d uid =
     (if has_role d uid Admin then Some Admin
      else if has_role d uid Subadmin then Some Subadmin
      else if has_role d uid User then Some User
      else None)"
proof (cases "get_user_role d uid")
  case None
  then have "roles_of d uid = []"
    by (simp add: get_user_role_None)
  then have "\<not> has_role d uid r" for r
    by (simp add: has_role_roles_of)
  with None show ?thesis
    by simp
next
  case (Some r)
  then have m: "has_role d uid r"
    and least: "\<And>r'. has_role d uid r' \<Longrightarrow> role_rank r \<le> role_rank r'"
    using get_user_role_Some [of d uid r] by (auto simp: has_role_roles_of)
  show ?thesis
  proof (cases r)
    case Admin
    with Some m show ?thesis by simp
  next
    case Subadmin
    with least [of Admin] have "\<not> has_role d uid Admin" by auto
    with Some Subadmin m show ?thesis by simp
  next
    case User
    with least [of Admin] least [of Subadmin]
    have "\<not> has_role d uid Admin" "\<not> has_role d uid Subadmin" by auto
    with Some User m show ?thesis by simp
  qed
qed

lemma ex_roles_7: "roles_of ex_db (Some 7) = [User, Subadmin]"
  by (simp add: roles_of_def ex_db_def)

lemma ex_roles_8: "roles_of ex_db (Some 8) = []"
  by (simp add: roles_of_def ex_db_def)

lemma ex_roles_9: "roles_of ex_db (Some 9) = [Admin]"
  by (simp add: roles_of_def ex_db_def)

text \<open>
  C4. \<^verbatim>\<open>get_user_role\<close> (the spec's effectiveRole) returns, for a principal with at
  least one role assignment, the assigned role of least rank under admin (1), subadmin
  (2), user (3); so it is admin if admin is assigned, else subadmin if subadmin is
  assigned, else user. For a principal with no assignment it returns \<^verbatim>\<open>NULL\<close>: the
  function has no default.
\<close>

theorem get_user_role_highest_priority:
  "(roles_of d (Some p) \<noteq> [] \<longrightarrow>
      (\<exists>r. get_user_role d (Some p) = Some r \<and> r \<in> set (roles_of d (Some p)) \<and>
           (\<forall>r' \<in> set (roles_of d (Some p)). role_rank r \<le> role_rank r'))) \<and>
   (roles_of d (Some p) = [] \<longrightarrow> get_user_role d (Some p) = None) \<and>
   get_user_role d (Some p) =
     (if has_role d (Some p) Admin then Some Admin
      else if has_role d (Some p) Subadmin then Some Subadmin
      else if has_role d (Some p) User then Some User
      else None)"
proof (intro conjI impI)
  assume "roles_of d (Some p) \<noteq> []"
  then obtain r where r: "get_user_role d (Some p) = Some r"
    using get_user_role_None [of d "Some p"] by (cases "get_user_role d (Some p)") auto
  with get_user_role_Some [OF r]
  show "\<exists>r. get_user_role d (Some p) = Some r \<and> r \<in> set (roles_of d (Some p)) \<and>
           (\<forall>r' \<in> set (roles_of d (Some p)). role_rank r \<le> role_rank r')"
    by blast
next
  assume "roles_of d (Some p) = []"
  then show "get_user_role d (Some p) = None"
    by (simp add: get_user_role_None)
next
  show "get_user_role d (Some p) =
     (if has_role d (Some p) Admin then Some Admin
      else if has_role d (Some p) Subadmin then Some Subadmin
      else if has_role d (Some p) User then Some User
      else None)"
    by (rule get_user_role_chain)
qed

text \<open>User 7, with the assignments user and subadmin, gets subadmin; user 8, with none,
  gets \<^verbatim>\<open>NULL\<close>.\<close>

theorem get_user_role_highest_priority_witness:
  "roles_of ex_db (Some 7) = [User, Subadmin] \<and> get_user_role ex_db (Some 7) = Some Subadmin \<and>
   roles_of ex_db (Some 8) = [] \<and> get_user_role ex_db (Some 8) = None"
  using get_user_role_highest_priority [of ex_db 7] get_user_role_highest_priority [of ex_db 8]
  by (simp add: ex_roles_7 ex_roles_8 has_role_roles_of)

text \<open>The claim's last part fails: a principal with no assignment does not get user.\<close>

theorem get_user_role_no_assignment_counterexample:
  "roles_of ex_db (Some 8) = [] \<and> get_user_role ex_db (Some 8) \<noteq> Some User"
  by (simp add: get_user_role_def roles_of_def ex_db_def)

section \<open>Properties of the price computation and of booking submission\<close>

lemma diffDays_whole:
  "\<lceil>real_of_int \<bar>getTime co - getTime ci\<bar> / (1000 * 60 * 60 * 24)\<rceil> =
     \<bar>days_from_civil co - days_from_civil ci\<bar>"
proof -
  have "getTime co - getTime ci = (days_from_civil co - days_from_civil ci) * 86400000"
    unfolding getTime_def by (rule left_diff_distrib [symmetric])
  then have "\<bar>getTime co - getTime ci\<bar> = \<bar>days_from_civil co - days_from_civil ci\<bar> * 86400000"
    by (simp only: abs_mult abs_numeral)
  then have "real_of_int \<bar>getTime co - getTime ci\<bar> / (1000 * 60 * 60 * 24) =
      real_of_int \<bar>days_from_civil co - days_from_civil ci\<bar>"
    by simp
  then show ?thesis
    by (simp only: ceiling_of_int)
qed

lemma calculateTotalPrice_days:
  "calculateTotalPrice (Some l) (Some ci) (Some co) =
     real_of_int \<bar>days_from_civil co - days_from_civil ci\<bar> * price l"
  using diffDays_whole [of co ci] by (simp add: calculateTotalPrice_def Let_def)

lemma calculateTotalPrice_swap:
  "calculateTotalPrice listing a b = calculateTotalPrice listing b a"
proof (cases listing)
  case None
  then show ?thesis by (simp add: calculateTotalPrice_def)
next
  case (Some l)
  show ?thesis
  proof (cases a)
    case None
    then show ?thesis by (simp add: calculateTotalPrice_def Some split: option.splits)
  next
    case ci: (Some ci)
    show ?thesis
    proof (cases b)
      case None
      then show ?thesis by (simp add: calculateTotalPrice_def Some split: option.splits)
    next
      case co: (Some co)
      show ?thesis
        by (simp add: Some ci co calculateTotalPrice_days abs_minus_commute)
    qed
  qed
qed

lemma numeric_10_2_scale_2:
  assumes "has_scale_2 x" and "numeric_10_2 x = Some y"
  shows "y = x"
proof -
  obtain c where xc: "x * 100 = real_of_int c"
    using assms(1) by (auto simp: has_scale_2_def)
  have "\<lfloor>real_of_int c + 1 / 2\<rfloor> = c" "\<lfloor>- real_of_int c + 1 / 2\<rfloor> = - c"
    by linarith+
  then have "(if x < 0 then - \<lfloor>- x * 100 + 1 / 2\<rfloor> else \<lfloor>x * 100 + 1 / 2\<rfloor>) = c"
    using xc by simp
  then have "y = real_of_int c / 100"
    using assms(2) by (simp add: numeric_10_2_def Let_def split: if_splits)
  with xc show ?thesis
    by simp
qed

lemma has_scale_2_mult: "has_scale_2 x \<Longrightarrow> has_scale_2 (real_of_int n * x)"
proof -
  assume "has_scale_2 x"
  then obtain c where "x * 100 = real_of_int c"
    by (auto simp: has_scale_2_def)
  then have "real_of_int n * x * 100 = real_of_int (n * c)"
    by simp
  then show ?thesis
    unfolding has_scale_2_def by (simp only: floor_of_int)
qed

lemma insert_booking_Inr:
  assumes "insert_booking d auth new_id now uid lid ci co g amount sr = Inr d'"
  shows "\<exists>b. d' = d\<lparr>bookings := bookings d @ [b]\<rparr> \<and> b_id b = new_id \<and> user_id b = uid \<and>
           listing_id b = lid \<and> check_in b = ci \<and> check_out b = co \<and> g = Some (guests b) \<and>
           numeric_10_2 amount = Some (total_price b) \<and> status b = Pending \<and>
           special_requests b = sr"
  using assms by (auto simp: insert_booking_def split: option.splits if_splits)

lemma handleBooking_Inr:
  assumes "handleBooking d user listing checkIn checkOut g sr new_id now = Inr d'"
  shows "\<exists>uid l ci co. user = Some uid \<and> listing = Some l \<and> checkIn = Some ci \<and> checkOut = Some co \<and>
           insert_booking d user new_id now uid (l_id l) ci co g
             (calculateTotalPrice listing checkIn checkOut) (or_null sr) = Inr d'"
  using assms by (auto simp: handleBooking_def split: option.splits)

lemma handleBooking_Inr_total:
  assumes "handleBooking d user listing a b g sr new_id now = Inr d'"
  shows "\<exists>r. bookings d' = bookings d @ [r] \<and>
           numeric_10_2 (calculateTotalPrice listing a b) = Some (total_price r)"
proof -
  from handleBooking_Inr [OF assms] obtain uid l ci co where
    eqs: "user = Some uid" "listing = Some l" "a = Some ci" "b = Some co" and
    ins: "insert_booking d user new_id now uid (l_id l) ci co g
       (calculateTotalPrice listing a b) (or_null sr) = Inr d'"
    by blast
  from insert_booking_Inr [OF ins] show ?thesis
    by auto
qed

lemma ex_booking_ok:
  "handleBooking ex_db (Some 8) (Some ex_listing) (Some jan_1) (Some jan_3) (Some 2) [] 50 99 =
     Inr (ex_db\<lparr>bookings := [ex_booking]\<rparr>)"
  by (simp add: handleBooking_def insert_booking_def calculateTotalPrice_def getTime_def
      days_from_civil_def numeric_10_2_def integer_4_def bookings_insert_check_def or_null_def
      ex_db_def ex_listing_def ex_booking_def jan_1_def jan_3_def)

text \<open>
  C5. For every booking that \<^verbatim>\<open>handleBooking\<close> submits, the computed total price
  is \<^verbatim>\<open>Math.ceil\<close> of the absolute difference of the two dates in days, times
  the listing's price, whatever the listing's type: the whole number of days between the
  dates times the price, which is check-out minus check-in in days times the price when
  the dates are in order. That is the value sent as \<^verbatim>\<open>total_price\<close>; the column
  stores it rounded to two places, which leaves it as it is when the price has two
  places, as every price read from the table has.
\<close>

theorem handleBooking_total_price:
  assumes "handleBooking d user listing checkIn checkOut g sr new_id now = Inr d'"
  shows "\<exists>l ci co b. listing = Some l \<and> checkIn = Some ci \<and> checkOut = Some co \<and>
           bookings d' = bookings d @ [b] \<and>
           calculateTotalPrice listing checkIn checkOut =
             real_of_int \<lceil>real_of_int \<bar>getTime co - getTime ci\<bar> / (1000 * 60 * 60 * 24)\<rceil> * price l \<and>
           calculateTotalPrice listing checkIn checkOut =
             real_of_int \<bar>days_from_civil co - days_from_civil ci\<bar> * price l \<and>
           (days_from_civil ci \<le> days_from_civil co \<longrightarrow>
              calculateTotalPrice listing checkIn checkOut =
                real_of_int (days_from_civil co - days_from_civil ci) * price l) \<and>
           numeric_10_2 (calculateTotalPrice listing checkIn checkOut) = Some (total_price b) \<and>
           (has_scale_2 (price l) \<longrightarrow> total_price b = calculateTotalPrice listing checkIn checkOut)"
proof -
  from handleBooking_Inr [OF assms] obtain uid l ci co where
    eqs: "user = Some uid" "listing = Some l" "checkIn = Some ci" "checkOut = Some co" and
    ins: "insert_booking d user new_id now uid (l_id l) ci co g
             (calculateTotalPrice listing checkIn checkOut) (or_null sr) = Inr d'"
    by blast
  from insert_booking_Inr [OF ins] obtain b where
    b: "d' = d\<lparr>bookings := bookings d @ [b]\<rparr>"
       "numeric_10_2 (calculateTotalPrice listing checkIn checkOut) = Some (total_price b)"
    by blast
  have days: "calculateTotalPrice listing checkIn checkOut =
      real_of_int \<bar>days_from_civil co - days_from_civil ci\<bar> * price l"
    by (simp add: eqs calculateTotalPrice_days)
  have ms: "calculateTotalPrice listing checkIn checkOut =
      real_of_int \<lceil>real_of_int \<bar>getTime co - getTime ci\<bar> / (1000 * 60 * 60 * 24)\<rceil> * price l"
    by (simp only: days diffDays_whole)
  have "total_price b = calculateTotalPrice listing checkIn checkOut" if "has_scale_2 (price l)"
  proof -
    have "has_scale_2 (calculateTotalPrice listing checkIn checkOut)"
      unfolding days using that by (rule has_scale_2_mult)
    then show ?thesis
      using b(2) by (rule numeric_10_2_scale_2)
  qed
  moreover have "calculateTotalPrice listing checkIn checkOut =
      real_of_int (days_from_civil co - days_from_civil ci) * price l"
    if "days_from_civil ci \<le> days_from_civil co"
    using that by (simp add: days)
  ultimately show ?thesis
    using eqs b days ms by simp
qed

text \<open>Check-in 2024-01-01, check-out 2024-01-03 and a price of 100 give a total of 200.\<close>

theorem handleBooking_total_price_witness:
  "handleBooking ex_db (Some 8) (Some ex_listing) (Some jan_1) (Some jan_3) (Some 2) [] 50 99 =
     Inr (ex_db\<lparr>bookings := [ex_booking]\<rparr>) \<and>
   price ex_listing = 100 \<and> has_scale_2 (price ex_listing) \<and>
   calculateTotalPrice (Some ex_listing) (Some jan_1) (Some jan_3) = 200 \<and>
   total_price ex_booking = calculateTotalPrice (Some ex_listing) (Some jan_1) (Some jan_3)"
proof -
  have sc: "has_scale_2 (price ex_listing)"
    by (simp add: has_scale_2_def ex_listing_def)
  from handleBooking_total_price [OF ex_booking_ok] sc
  have "calculateTotalPrice (Some ex_listing) (Some jan_1) (Some jan_3) =
      real_of_int \<bar>days_from_civil jan_3 - days_from_civil jan_1\<bar> * price ex_listing"
    and "total_price ex_booking = calculateTotalPrice (Some ex_listing) (Some jan_1) (Some jan_3)"
    by auto
  then show ?thesis
    using sc ex_booking_ok
    by (simp add: days_from_civil_def jan_1_def jan_3_def ex_listing_def)
qed

lemma insert_booking_dates_Inl:
  "insert_booking d auth i n u l ci co g amount sr = Inl e \<longleftrightarrow>
   insert_booking d auth i n u l ci' co' g amount sr = Inl e"
  by (simp add: insert_booking_def split: option.splits)

lemma handleBooking_swap_Inl:
  "handleBooking d user listing a b g sr new_id now = Inl e \<longleftrightarrow>
   handleBooking d user listing b a g sr new_id now = Inl e"
proof (cases "\<exists>uid l ci co. user = Some uid \<and> listing = Some l \<and> a = Some ci \<and> b = Some co")
  case True
  then obtain uid l ci co where
    eqs: "user = Some uid" "listing = Some l" "a = Some ci" "b = Some co"
    by blast
  show ?thesis
    using insert_booking_dates_Inl [of d user new_id now uid "l_id l" ci co g _ _ e co ci]
    by (simp add: handleBooking_def eqs calculateTotalPrice_swap [of "Some l" "Some ci" "Some co"])
next
  case False
  then show ?thesis
    by (auto simp: handleBooking_def split: option.splits)
qed

lemma handleBooking_swap_Inr:
  assumes "handleBooking d user listing a b g sr new_id now = Inr d1"
    and "handleBooking d user listing b a g sr new_id now = Inr d2"
  shows "map total_price (bookings d1) = map total_price (bookings d2)"
proof -
  from handleBooking_Inr_total [OF assms(1)] obtain r1 where
    r1: "bookings d1 = bookings d @ [r1]"
      "numeric_10_2 (calculateTotalPrice listing a b) = Some (total_price r1)"
    by blast
  from handleBooking_Inr_total [OF assms(2)] obtain r2 where
    r2: "bookings d2 = bookings d @ [r2]"
      "numeric_10_2 (calculateTotalPrice listing b a) = Some (total_price r2)"
    by blast
  from r1(2) r2(2) have "total_price r1 = total_price r2"
    by (simp add: calculateTotalPrice_swap [of listing a b])
  with r1(1) r2(1) show ?thesis
    by simp
qed

lemma ex_booking_swapped:
  "handleBooking ex_db (Some 8) (Some ex_listing) (Some jan_3) (Some jan_1) (Some 2) [] 50 99 =
     Inr (ex_db\<lparr>bookings := [ex_booking\<lparr>check_in := jan_3, check_out := jan_1\<rparr>]\<rparr>)"
  by (simp add: handleBooking_def insert_booking_def calculateTotalPrice_def getTime_def
      days_from_civil_def numeric_10_2_def integer_4_def bookings_insert_check_def or_null_def
      ex_db_def ex_listing_def ex_booking_def jan_1_def jan_3_def)

text \<open>
  C10. The computed total price is the same when the two dates are swapped; it is the
  absolute difference of the dates in days times the price, so it is not negative for a
  listing whose price is not negative. \<^verbatim>\<open>handleBooking\<close> does not look at the
  order of the dates: with the dates swapped it fails with the same error or stores the
  same total.
\<close>

theorem calculateTotalPrice_date_order:
  "calculateTotalPrice listing a b = calculateTotalPrice listing b a \<and>
   (\<forall>l ci co. listing = Some l \<and> a = Some ci \<and> b = Some co \<longrightarrow>
      calculateTotalPrice listing a b =
        real_of_int \<bar>days_from_civil co - days_from_civil ci\<bar> * price l) \<and>
   (\<forall>l. listing = Some l \<and> 0 \<le> price l \<longrightarrow> 0 \<le> calculateTotalPrice listing a b) \<and>
   (\<forall>e. handleBooking d user listing a b g sr new_id now = Inl e \<longleftrightarrow>
        handleBooking d user listing b a g sr new_id now = Inl e) \<and>
   (\<forall>d1 d2. handleBooking d user listing a b g sr new_id now = Inr d1 \<and>
        handleBooking d user listing b a g sr new_id now = Inr d2 \<longrightarrow>
        map total_price (bookings d1) = map total_price (bookings d2))"
proof (intro conjI allI impI)
  show "calculateTotalPrice listing a b = calculateTotalPrice listing b a"
    by (rule calculateTotalPrice_swap)
next
  fix l ci co
  assume "listing = Some l \<and> a = Some ci \<and> b = Some co"
  then show "calculateTotalPrice listing a b =
      real_of_int \<bar>days_from_civil co - days_from_civil ci\<bar> * price l"
    by (simp add: calculateTotalPrice_days)
next
  fix l
  assume l: "listing = Some l \<and> 0 \<le> price l"
  show "0 \<le> calculateTotalPrice listing a b"
  proof (cases "\<exists>ci co. a = Some ci \<and> b = Some co")
    case True
    then obtain ci co where "a = Some ci" "b = Some co"
      by blast
    with l show ?thesis
      by (simp add: calculateTotalPrice_days)
  next
    case False
    with l show ?thesis
      by (auto simp: calculateTotalPrice_def split: option.splits)
  qed
next
  fix e
  show "handleBooking d user listing a b g sr new_id now = Inl e \<longleftrightarrow>
        handleBooking d user listing b a g sr new_id now = Inl e"
    by (rule handleBooking_swap_Inl)
next
  fix d1 d2
  assume "handleBooking d user listing a b g sr new_id now = Inr d1 \<and>
        handleBooking d user listing b a g sr new_id now = Inr d2"
  then show "map total_price (bookings d1) = map total_price (bookings d2)"
    using handleBooking_swap_Inr by blast
qed

text \<open>A booking from 2024-01-03 back to 2024-01-01 is stored, billed 200 like the
  booking in order.\<close>

theorem calculateTotalPrice_date_order_witness:
  "0 \<le> price ex_listing \<and>
   calculateTotalPrice (Some ex_listing) (Some jan_3) (Some jan_1) = 200 \<and>
   calculateTotalPrice (Some ex_listing) (Some jan_1) (Some jan_3) = 200 \<and>
   0 \<le> calculateTotalPrice (Some ex_listing) (Some jan_3) (Some jan_1) \<and>
   handleBooking ex_db (Some 8) (Some ex_listing) (Some jan_3) (Some jan_1) (Some 2) [] 50 99 =
     Inr (ex_db\<lparr>bookings := [ex_booking\<lparr>check_in := jan_3, check_out := jan_1\<rparr>]\<rparr>) \<and>
   total_price (ex_booking\<lparr>check_in := jan_3, check_out := jan_1\<rparr>) = total_price ex_booking"
proof -
  have p: "0 \<le> price ex_listing"
    by (simp add: ex_listing_def)
  note t = calculateTotalPrice_date_order [of "Some ex_listing" "Some jan_3" "Some jan_1" ex_db
      "Some 8" "Some 2" "[]" 50 99]
  from t have "calculateTotalPrice (Some ex_listing) (Some jan_3) (Some jan_1) =
      real_of_int \<bar>days_from_civil jan_1 - days_from_civil jan_3\<bar> * price ex_listing"
    by blast
  then have a: "calculateTotalPrice (Some ex_listing) (Some jan_3) (Some jan_1) = 200"
    by (simp add: days_from_civil_def jan_1_def jan_3_def ex_listing_def)
  from t have b: "calculateTotalPrice (Some ex_listing) (Some jan_3) (Some jan_1) =
      calculateTotalPrice (Some ex_listing) (Some jan_1) (Some jan_3)"
    by blast
  from t p have c: "0 \<le> calculateTotalPrice (Some ex_listing) (Some jan_3) (Some jan_1)"
    by blast
  from t ex_booking_ok ex_booking_swapped
  have "map total_price (bookings (ex_db\<lparr>bookings := [ex_booking\<lparr>check_in := jan_3, check_out := jan_1\<rparr>]\<rparr>)) =
      map total_price (bookings (ex_db\<lparr>bookings := [ex_booking]\<rparr>))"
    by blast
  then have e: "total_price (ex_booking\<lparr>check_in := jan_3, check_out := jan_1\<rparr>) = total_price ex_booking"
    by simp
  from p a b c e ex_booking_swapped show ?thesis
    by simp
qed

text \<open>
  The claim's ``always non-negative'' fails: \<^verbatim>\<open>price\<close> has no \<^verbatim>\<open>CHECK\<close>, so
  the table takes a listing with the price -5, and two days of it are billed -10.
\<close>

theorem negative_price_counterexample:
  "insert_listing ex_db (Some 7) 2 100
       ((listingData ex_parseFloat ex_parseInt Trip ex_form [] 7)\<lparr>ld_price := Some (- 5)\<rparr>) =
     Inr (ex_db\<lparr>listings := [ex_listing, ex_listing_negative]\<rparr>) \<and>
   price ex_listing_negative = - 5 \<and>
   calculateTotalPrice (Some ex_listing_negative) (Some jan_1) (Some jan_3) = - 10 \<and>
   calculateTotalPrice (Some ex_listing_negative) (Some jan_1) (Some jan_3) < 0"
proof -
  have "insert_listing ex_db (Some 7) 2 100
       ((listingData ex_parseFloat ex_parseInt Trip ex_form [] 7)\<lparr>ld_price := Some (- 5)\<rparr>) =
     Inr (ex_db\<lparr>listings := [ex_listing, ex_listing_negative]\<rparr>)"
    by (simp add: insert_listing_def listingData_def listings_insert_check_def
        numeric_10_2_def integer_4_def or_null_def ex_parseInt_def
        ex_form_def ex_listing_negative_def ex_listing_created_def ex_db_def ex_listing_def)
  moreover have "calculateTotalPrice (Some ex_listing_negative) (Some jan_1) (Some jan_3) = - 10"
    by (simp add: calculateTotalPrice_days days_from_civil_def jan_1_def jan_3_def
        ex_listing_negative_def)
  ultimately show ?thesis
    by (simp add: ex_listing_negative_def)
qed

text \<open>
  C3. \<^verbatim>\<open>handleBooking\<close> never reads \<^verbatim>\<open>listing.max_guests\<close> and never
  compares the guest count with 1: five guests for a listing with at most two, and zero
  guests, are both stored as pending bookings.
\<close>

theorem handleBooking_guests_unchecked:
  "max_guests ex_listing = Some 2 \<and>
   handleBooking ex_db (Some 8) (Some ex_listing) (Some jan_1) (Some jan_3) (Some 5) [] 50 99 =
     Inr (ex_db\<lparr>bookings := [ex_booking\<lparr>guests := 5\<rparr>]\<rparr>) \<and>
   handleBooking ex_db (Some 8) (Some ex_listing) (Some jan_1) (Some jan_3) (Some 0) [] 50 99 =
     Inr (ex_db\<lparr>bookings := [ex_booking\<lparr>guests := 0\<rparr>]\<rparr>)"
  by (simp add: handleBooking_def insert_booking_def calculateTotalPrice_def getTime_def
      days_from_civil_def numeric_10_2_def integer_4_def bookings_insert_check_def or_null_def
      ex_db_def ex_listing_def ex_booking_def jan_1_def jan_3_def)

section \<open>Properties of booking decisions\<close>

lemma same_id_same_row:
  assumes "distinct (map b_id bs)" and "b \<in> set bs" and "x \<in> set bs" and "b_id x = b_id b"
  shows "x = b"
  using assms by (meson distinct_map inj_onD)

lemma handleBookingAction_denied:
  assumes "distinct (map b_id (bookings d))" and "b \<in> set (bookings d)"
    and "\<not> bookings_update_policy d auth b"
  shows "handleBookingAction d auth (b_id b) st now = Inr d"
proof -
  have "map (\<lambda>x. if b_id x = b_id b \<and> bookings_update_policy d auth x
                 then x\<lparr>status := st, b_updated_at := now\<rparr> else x) (bookings d) = bookings d"
  proof (rule map_idI)
    fix x
    assume "x \<in> set (bookings d)"
    then have "b_id x = b_id b \<Longrightarrow> x = b"
      using same_id_same_row [OF assms(1) assms(2)] by blast
    with assms(3)
    show "(if b_id x = b_id b \<and> bookings_update_policy d auth x
           then x\<lparr>status := st, b_updated_at := now\<rparr> else x) = x"
      by auto
  qed
  then show ?thesis
    by (simp add: handleBookingAction_def)
qed

lemma handleBookingAction_permitted:
  assumes "b \<in> set (bookings d)" and "bookings_update_policy d auth b"
  shows "\<exists>d'. handleBookingAction d auth (b_id b) st now = Inr d' \<and>
           b\<lparr>status := st, b_updated_at := now\<rparr> \<in> set (bookings d')"
proof -
  let ?f = "\<lambda>x. if b_id x = b_id b \<and> bookings_update_policy d auth x
                 then x\<lparr>status := st, b_updated_at := now\<rparr> else x"
  have "?f b \<in> set (map ?f (bookings d))"
    using assms(1) by (simp only: set_map) (rule imageI)
  with assms(2) show ?thesis
    by (simp add: handleBookingAction_def)
qed

lemma owns_listing_of_iff:
  "owns_listing_of d (Some p) b \<longleftrightarrow>
     (\<exists>l \<in> set (listings d). l_id l = listing_id b \<and> owner_id l = p)"
  by (auto simp: owns_listing_of_def list_ex_iff)

lemma bookings_update_policy_iff:
  "bookings_update_policy d (Some p) b \<longleftrightarrow>
     (\<exists>l \<in> set (listings d). l_id l = listing_id b \<and> owner_id l = p) \<or>
     get_user_role d (Some p) = Some Admin"
  by (simp add: bookings_update_policy_def owns_listing_of_iff get_user_role_Admin)

lemma bookings_update_imp_select:
  "bookings_update_policy d auth b \<Longrightarrow> bookings_select_policy d auth b"
  by (auto simp: bookings_update_policy_def bookings_select_policy_def)

text \<open>
  C6. For every principal \<open>p\<close> and booking \<open>b\<close> of the table, the update policies
  admit \<open>p\<close> on \<open>b\<close> exactly when \<open>p\<close> owns the listing that \<open>b\<close> references or
  \<open>p\<close>'s effective role is admin. When they do, \<^verbatim>\<open>handleBookingAction\<close> sets
  the status of \<open>b\<close>; when they do not, it changes nothing. So the requesting principal
  of \<open>b\<close>, unless it owns the listing or is an admin, cannot change the status of \<open>b\<close>.
\<close>

theorem update_status_permitted:
  assumes "distinct (map b_id (bookings d))" and "b \<in> set (bookings d)"
  shows "(bookings_update_policy d (Some p) b \<longleftrightarrow>
            (\<exists>l \<in> set (listings d). l_id l = listing_id b \<and> owner_id l = p) \<or>
            get_user_role d (Some p) = Some Admin) \<and>
         (bookings_update_policy d (Some p) b \<longrightarrow>
            (\<exists>d'. handleBookingAction d (Some p) (b_id b) st now = Inr d' \<and>
                  b\<lparr>status := st, b_updated_at := now\<rparr> \<in> set (bookings d'))) \<and>
         (\<not> bookings_update_policy d (Some p) b \<longrightarrow>
            handleBookingAction d (Some p) (b_id b) st now = Inr d) \<and>
         (user_id b = p \<and> \<not> (\<exists>l \<in> set (listings d). l_id l = listing_id b \<and> owner_id l = p) \<and>
            get_user_role d (Some p) \<noteq> Some Admin \<longrightarrow>
            handleBookingAction d (Some p) (b_id b) st now = Inr d)"
proof (intro conjI impI)
  show "bookings_update_policy d (Some p) b \<longleftrightarrow>
            (\<exists>l \<in> set (listings d). l_id l = listing_id b \<and> owner_id l = p) \<or>
            get_user_role d (Some p) = Some Admin"
    by (rule bookings_update_policy_iff)
next
  assume "bookings_update_policy d (Some p) b"
  with assms(2)
  show "\<exists>d'. handleBookingAction d (Some p) (b_id b) st now = Inr d' \<and>
                  b\<lparr>status := st, b_updated_at := now\<rparr> \<in> set (bookings d')"
    by (rule handleBookingAction_permitted)
next
  assume "\<not> bookings_update_policy d (Some p) b"
  with assms show "handleBookingAction d (Some p) (b_id b) st now = Inr d"
    by (rule handleBookingAction_denied)
next
  assume "user_id b = p \<and> \<not> (\<exists>l \<in> set (listings d). l_id l = listing_id b \<and> owner_id l = p) \<and>
            get_user_role d (Some p) \<noteq> Some Admin"
  then have "\<not> bookings_update_policy d (Some p) b"
    by (simp add: bookings_update_policy_iff)
  with assms show "handleBookingAction d (Some p) (b_id b) st now = Inr d"
    by (rule handleBookingAction_denied)
qed

lemma ex_policy_8: "\<not> bookings_update_policy ex_db_accepted (Some 8) (ex_booking\<lparr>status := Accepted\<rparr>)"
  by (simp add: bookings_update_policy_def owns_listing_of_def has_role_def ex_db_accepted_def
      ex_db_def ex_listing_def ex_booking_def)

lemma ex_policy_7: "bookings_update_policy ex_db_accepted (Some 7) (ex_booking\<lparr>status := Accepted\<rparr>)"
  by (simp add: bookings_update_policy_def owns_listing_of_def has_role_def ex_db_accepted_def
      ex_db_def ex_listing_def ex_booking_def)

lemma ex_accepted_rows:
  "distinct (map b_id (bookings ex_db_accepted)) \<and>
   ex_booking\<lparr>status := Accepted\<rparr> \<in> set (bookings ex_db_accepted)"
  by (simp add: ex_db_accepted_def)

text \<open>On an accepted booking of user 8 for the listing of user 7: user 8 changes nothing,
  user 7 (a subadmin, the owner) sets the status.\<close>

theorem update_status_permitted_witness:
  "distinct (map b_id (bookings ex_db_accepted)) \<and>
   ex_booking\<lparr>status := Accepted\<rparr> \<in> set (bookings ex_db_accepted) \<and>
   user_id (ex_booking\<lparr>status := Accepted\<rparr>) = 8 \<and>
   \<not> bookings_update_policy ex_db_accepted (Some 8) (ex_booking\<lparr>status := Accepted\<rparr>) \<and>
   handleBookingAction ex_db_accepted (Some 8) 50 Rejected 100 = Inr ex_db_accepted \<and>
   bookings_update_policy ex_db_accepted (Some 7) (ex_booking\<lparr>status := Accepted\<rparr>) \<and>
   get_user_role ex_db_accepted (Some 7) = Some Subadmin \<and>
   (\<exists>d'. handleBookingAction ex_db_accepted (Some 7) 50 Pending 100 = Inr d' \<and>
      ex_booking\<lparr>status := Pending, b_updated_at := 100\<rparr> \<in> set (bookings d'))"
proof -
  have id: "b_id (ex_booking\<lparr>status := Accepted\<rparr>) = 50"
    by (simp add: ex_booking_def)
  have u: "user_id (ex_booking\<lparr>status := Accepted\<rparr>) = 8"
    by (simp add: ex_booking_def)
  have r: "get_user_role ex_db_accepted (Some 7) = Some Subadmin"
    by (simp add: get_user_role_def roles_of_def ex_db_accepted_def ex_db_def)
  note rows = ex_accepted_rows [THEN conjunct1] ex_accepted_rows [THEN conjunct2]
  from update_status_permitted [OF rows, of 8 Rejected 100] ex_policy_8
  have a: "handleBookingAction ex_db_accepted (Some 8) 50 Rejected 100 = Inr ex_db_accepted"
    by (simp only: id) blast
  from update_status_permitted [OF rows, of 7 Pending 100] ex_policy_7
  have b: "\<exists>d'. handleBookingAction ex_db_accepted (Some 7) 50 Pending 100 = Inr d' \<and>
      ex_booking\<lparr>status := Pending, b_updated_at := 100\<rparr> \<in> set (bookings d')"
    by (simp only: id) simp
  from rows u ex_policy_8 ex_policy_7 a b r show ?thesis
    by blast
qed

text \<open>The claim's last part fails: user 7 books the listing that user 7 owns, and then
  accepts that booking.\<close>

theorem requester_changes_status_counterexample:
  "handleBooking ex_db (Some 7) (Some ex_listing) (Some jan_1) (Some jan_3) (Some 2) [] 50 99 =
     Inr ex_db_own \<and>
   map user_id (bookings ex_db_own) = [7] \<and> map status (bookings ex_db_own) = [Pending] \<and>
   handleBookingAction ex_db_own (Some 7) 50 Accepted 100 =
     Inr (ex_db\<lparr>bookings := [ex_booking\<lparr>user_id := 7, status := Accepted, b_updated_at := 100\<rparr>]\<rparr>)"
  by (simp add: handleBooking_def insert_booking_def calculateTotalPrice_def getTime_def
      days_from_civil_def numeric_10_2_def integer_4_def bookings_insert_check_def or_null_def
      handleBookingAction_def bookings_update_policy_def owns_listing_of_def has_role_def
      ex_db_own_def ex_db_def ex_listing_def ex_booking_def jan_1_def jan_3_def)

text \<open>
  A decision by an actor whom the update policies admit sets the status of every row
  with that id, whatever the status was: \<^verbatim>\<open>handleBookingAction\<close> never reads it.
\<close>

lemma handleBookingAction_any_status:
  assumes "handleBookingAction d auth bookingId st now = Inr d'"
    and "b \<in> set (bookings d)" and "b_id b = bookingId" and "bookings_update_policy d auth b"
  shows "b\<lparr>status := st, b_updated_at := now\<rparr> \<in> set (bookings d')"
proof -
  from handleBookingAction_permitted [OF assms(2) assms(4), of st now] assms(1) assms(3)
  show ?thesis
    by auto
qed

text \<open>
  C1. A decision on an accepted booking is not refused. The owner (user 7) accepts the
  pending booking 50; the dashboard of the admin (user 9), loaded before, still holds the
  pending copy and so still renders Accept and Reject; the admin's Reject then succeeds
  and the accepted booking becomes rejected. So does a second decision by the owner.
  The only test of the status is the one around the buttons.
\<close>

theorem handleBookingAction_overwrites_terminal:
  "booking_card_actions ex_booking = [Accepted, Rejected] \<and>
   handleBookingAction (ex_db\<lparr>bookings := [ex_booking]\<rparr>) (Some 7) 50 Accepted 99 =
     Inr ex_db_accepted \<and>
   map status (bookings ex_db_accepted) = [Accepted] \<and>
   get_user_role ex_db_accepted (Some 9) = Some Admin \<and>
   handleBookingAction ex_db_accepted (Some 9) 50 Rejected 100 =
     Inr (ex_db\<lparr>bookings := [ex_booking\<lparr>status := Rejected, b_updated_at := 100\<rparr>]\<rparr>) \<and>
   handleBookingAction ex_db_accepted (Some 7) 50 Rejected 100 =
     Inr (ex_db\<lparr>bookings := [ex_booking\<lparr>status := Rejected, b_updated_at := 100\<rparr>]\<rparr>)"
  by (simp add: handleBookingAction_def bookings_update_policy_def owns_listing_of_def has_role_def
      get_user_role_def roles_of_def booking_card_actions_def
      ex_db_accepted_def ex_db_def ex_listing_def ex_booking_def)

section \<open>Properties of the listing registry\<close>

lemma active_is_visible:
  "is_active l = Some True \<Longrightarrow> listings_select_policy d auth l"
  by (simp add: listings_select_policy_def anyone_can_view_active_def)

lemma filter_active_select:
  "filter (\<lambda>l. is_active l = Some True) (select_listings d auth) =
     filter (\<lambda>l. is_active l = Some True) (listings d)"
  unfolding select_listings_def filter_filter
  by (rule filter_cong) (auto simp: active_is_visible)

lemma mset_fetchListings:
  "mset (fetchListings d auth) = mset (filter (\<lambda>l. is_active l = Some True) (listings d))"
  by (simp add: fetchListings_def filter_active_select)

lemma set_fetchListings:
  "set (fetchListings d auth) = {l \<in> set (listings d). is_active l = Some True}"
  by (simp add: fetchListings_def filter_active_select)

lemma fetchListings_newest_first:
  "sorted (rev (map l_created_at (fetchListings d auth)))"
  by (simp add: fetchListings_def rev_map)

lemma owner_or_admin_selects:
  assumes "l \<in> set (listings d)"
    and "auth = Some (owner_id l) \<or> get_user_role d auth = Some Admin"
  shows "l \<in> set (select_listings d auth)"
  using assms
  by (auto simp: select_listings_def listings_select_policy_def owners_can_manage_def
      admins_can_manage_def get_user_role_Admin)

text \<open>
  C7. \<^verbatim>\<open>fetchListings\<close> (the spec's listActive) returns, for any caller, exactly
  the rows of \<^verbatim>\<open>listings\<close> with \<^verbatim>\<open>is_active = true\<close>, each once, ordered
  by \<^verbatim>\<open>created_at\<close> descending. A listing that is not active is never in the
  result, yet its owner and every admin can read it: the select policies show it to
  them, and so does the dashboard's query.
\<close>

theorem fetchListings_active_newest_first:
  "mset (fetchListings d auth) = mset (filter (\<lambda>l. is_active l = Some True) (listings d)) \<and>
   sorted (rev (map l_created_at (fetchListings d auth))) \<and>
   (\<forall>l \<in> set (listings d). is_active l \<noteq> Some True \<longrightarrow>
      l \<notin> set (fetchListings d auth) \<and>
      l \<in> set (select_listings d (Some (owner_id l))) \<and>
      l \<in> set (fetchDashboardListings d (Some (owner_id l)) True) \<and>
      (\<forall>a. get_user_role d (Some a) = Some Admin \<longrightarrow>
         l \<in> set (select_listings d (Some a)) \<and>
         l \<in> set (fetchDashboardListings d (Some a) False)))"
proof (intro conjI ballI impI allI)
  show "mset (fetchListings d auth) = mset (filter (\<lambda>l. is_active l = Some True) (listings d))"
    by (rule mset_fetchListings)
  show "sorted (rev (map l_created_at (fetchListings d auth)))"
    by (rule fetchListings_newest_first)
next
  fix l
  assume l: "l \<in> set (listings d)" and off: "is_active l \<noteq> Some True"
  from off show "l \<notin> set (fetchListings d auth)"
    by (simp add: set_fetchListings)
  from l show own: "l \<in> set (select_listings d (Some (owner_id l)))"
    by (simp add: owner_or_admin_selects)
  then show "l \<in> set (fetchDashboardListings d (Some (owner_id l)) True)"
    by (simp add: fetchDashboardListings_def)
next
  fix l a
  assume l: "l \<in> set (listings d)" and adm: "get_user_role d (Some a) = Some Admin"
  then show sel: "l \<in> set (select_listings d (Some a))"
    by (simp add: owner_or_admin_selects)
  then show "l \<in> set (fetchDashboardListings d (Some a) False)"
    by (simp add: fetchDashboardListings_def)
qed

lemma ex_listings_rows:
  "listings ex_db_listings = [ex_listing, ex_listing_off, ex_listing_new] \<and>
   is_active ex_listing_off = Some False \<and> owner_id ex_listing_off = 7 \<and>
   is_active ex_listing = Some True \<and> is_active ex_listing_new = Some True \<and>
   l_created_at ex_listing = 5 \<and> l_created_at ex_listing_new = 9"
  by (simp add: ex_db_listings_def ex_listing_off_def ex_listing_new_def ex_listing_def)

lemma ex_fetchListings:
  "fetchListings ex_db_listings None = [ex_listing_new, ex_listing]"
  by (simp add: fetchListings_def select_listings_def listings_select_policy_def
      anyone_can_view_active_def owners_can_manage_def admins_can_manage_def has_role_def
      ex_listings_rows ex_db_listings_def ex_db_def)

text \<open>The inactive listing 2 of user 7 is not on the home page; the dashboards of user 7
  and of the admin show it.\<close>

theorem fetchListings_active_newest_first_witness:
  "ex_listing_off \<in> set (listings ex_db_listings) \<and> is_active ex_listing_off \<noteq> Some True \<and>
   owner_id ex_listing_off = 7 \<and> get_user_role ex_db_listings (Some 9) = Some Admin \<and>
   fetchListings ex_db_listings None = [ex_listing_new, ex_listing] \<and>
   ex_listing_off \<notin> set (fetchListings ex_db_listings None) \<and>
   ex_listing_off \<in> set (fetchDashboardListings ex_db_listings (Some 7) True) \<and>
   ex_listing_off \<in> set (fetchDashboardListings ex_db_listings (Some 9) False)"
proof -
  have m: "ex_listing_off \<in> set (listings ex_db_listings)"
    and off: "is_active ex_listing_off \<noteq> Some True"
    and own: "owner_id ex_listing_off = 7"
    by (simp_all add: ex_listings_rows)
  have adm: "get_user_role ex_db_listings (Some 9) = Some Admin"
    by (simp add: get_user_role_def roles_of_def ex_db_listings_def ex_db_def)
  from fetchListings_active_newest_first [of ex_db_listings None] m off adm
  have "ex_listing_off \<notin> set (fetchListings ex_db_listings None) \<and>
      ex_listing_off \<in> set (fetchDashboardListings ex_db_listings (Some (owner_id ex_listing_off)) True) \<and>
      ex_listing_off \<in> set (fetchDashboardListings ex_db_listings (Some 9) False)"
    by blast
  with m off own adm ex_fetchListings show ?thesis
    by simp
qed

section \<open>Properties of listing creation\<close>

lemma CreateListing_denied:
  assumes "userRole \<noteq> Some Admin" and "userRole \<noteq> Some Subadmin"
  shows "CreateListing parseFloat parseInt d user userRole fd amen new_id now = Inl AccessDenied"
  using assms by (simp add: CreateListing_def split: option.splits)

lemma ex_role_6: "get_user_role ex_db (Some 6) = Some User"
  by (simp add: get_user_role_def roles_of_def ex_db_def)

lemma ex_create_ok:
  "CreateListing ex_parseFloat ex_parseInt ex_db (Some 7) (Some Subadmin) ex_form [] 2 100 =
     Inr (ex_db\<lparr>listings := [ex_listing, ex_listing_created]\<rparr>)"
  by (simp add: CreateListing_def handleSubmit_def insert_listing_def listingData_def
      listings_insert_check_def numeric_10_2_def integer_4_def or_null_def
      ex_parseFloat_def ex_parseInt_def ex_form_def ex_listing_created_def ex_db_def
      ex_listing_def)

text \<open>
  C2. A principal whose effective role is user can create a listing. The page refuses
  user 6 with ``Access Denied'', but the role is tested nowhere else: the insert
  policies on \<^verbatim>\<open>listings\<close> admit every row whose \<^verbatim>\<open>owner_id\<close> is the caller,
  so the request that \<^verbatim>\<open>handleSubmit\<close> would send, sent by user 6 as its own
  owner, stores the listing.
\<close>

theorem listings_insert_admits_user_role:
  "get_user_role ex_db (Some 6) = Some User \<and>
   CreateListing ex_parseFloat ex_parseInt ex_db (Some 6) (Some User) ex_form [] 2 100 =
     Inl AccessDenied \<and>
   listings_insert_check ex_db (Some 6) 6 \<and>
   insert_listing ex_db (Some 6) 2 100
       (listingData ex_parseFloat ex_parseInt Trip ex_form [] 6) =
     Inr (ex_db\<lparr>listings := [ex_listing, ex_listing_created\<lparr>owner_id := 6\<rparr>]\<rparr>)"
proof (intro conjI)
  show "get_user_role ex_db (Some 6) = Some User"
    by (rule ex_role_6)
  show "CreateListing ex_parseFloat ex_parseInt ex_db (Some 6) (Some User) ex_form [] 2 100 =
     Inl AccessDenied"
    by (simp add: CreateListing_denied)
  show "listings_insert_check ex_db (Some 6) 6"
    by (simp add: listings_insert_check_def)
  show "insert_listing ex_db (Some 6) 2 100
       (listingData ex_parseFloat ex_parseInt Trip ex_form [] 6) =
     Inr (ex_db\<lparr>listings := [ex_listing, ex_listing_created\<lparr>owner_id := 6\<rparr>]\<rparr>)"
    by (simp add: insert_listing_def listingData_def listings_insert_check_def
        numeric_10_2_def integer_4_def or_null_def ex_parseFloat_def ex_parseInt_def
        ex_form_def ex_listing_created_def ex_db_def ex_listing_def)
qed

lemma insert_listing_Inr:
  assumes "insert_listing d auth new_id now ld = Inr d'"
  shows "\<exists>p p'. ld_price ld = Some p \<and> numeric_10_2 p = Some p' \<and>
           d' = d\<lparr>listings := listings d @
                 [\<lparr> l_id = new_id,
                    owner_id = ld_owner_id ld,
                    l_type = ld_type ld,
                    title = ld_title ld,
                    description = ld_description ld,
                    price = p',
                    location = ld_location ld,
                    image_url = ld_image_url ld,
                    amenities = ld_amenities ld,
                    available_from = ld_available_from ld,
                    available_to = ld_available_to ld,
                    max_guests = ld_max_guests ld,
                    is_active = Some (ld_is_active ld),
                    l_created_at = now,
                    l_updated_at = now \<rparr>]\<rparr>"
  using assms by (auto simp: insert_listing_def split: option.splits if_splits)

lemma handleSubmit_Inr:
  assumes "handleSubmit parseFloat parseInt d uid fd amen new_id now = Inr d'"
  shows "\<exists>ty. f_type fd = Some ty \<and> f_title fd \<noteq> [] \<and> f_location fd \<noteq> [] \<and> f_price fd \<noteq> [] \<and>
           insert_listing d (Some uid) new_id now
             (listingData parseFloat parseInt ty fd amen uid) = Inr d'"
  using assms by (auto simp: handleSubmit_def split: option.splits if_splits)

lemma CreateListing_Inr:
  assumes "CreateListing parseFloat parseInt d user userRole fd amen new_id now = Inr d'"
  shows "\<exists>uid. user = Some uid \<and> (userRole = Some Admin \<or> userRole = Some Subadmin) \<and>
           handleSubmit parseFloat parseInt d uid fd amen new_id now = Inr d'"
  using assms by (auto simp: CreateListing_def split: option.splits if_splits)

text \<open>
  C9. A listing created through \<^verbatim>\<open>CreateListing\<close> is among the rows that
  \<^verbatim>\<open>fetchListings\<close> returns to any caller, with the type, title and location of
  the form, the parsed price (rounded to two places by the column, so unchanged when it
  has two places), and each optional field as entered when it was not empty. An empty
  description, image reference, guest limit or availability date, and an empty list of
  amenities, come back as \<^verbatim>\<open>NULL\<close>.
\<close>

theorem create_then_fetchListings:
  assumes "CreateListing parseFloat parseInt d user userRole fd amen new_id now = Inr d'"
  shows "\<exists>r ty p. r \<in> set (fetchListings d' auth) \<and>
           l_id r = new_id \<and> Some (owner_id r) = user \<and> is_active r = Some True \<and>
           l_created_at r = now \<and> l_updated_at r = now \<and>
           f_type fd = Some ty \<and> l_type r = ty \<and>
           title r = f_title fd \<and>
           location r = f_location fd \<and>
           parseFloat (f_price fd) = Some p \<and> numeric_10_2 p = Some (price r) \<and>
           (has_scale_2 p \<longrightarrow> price r = p) \<and>
           description r = (if f_description fd = [] then None else Some (f_description fd)) \<and>
           image_url r = (if f_image_url fd = [] then None else Some (f_image_url fd)) \<and>
           amenities r = (if amen = [] then None else Some amen) \<and>
           max_guests r = (if f_max_guests fd = [] then None else parseInt (f_max_guests fd)) \<and>
           available_from r =
             (if f_available_from fd = [] then None else Some (f_available_from fd)) \<and>
           available_to r =
             (if f_available_to fd = [] then None else Some (f_available_to fd))"
proof -
  from CreateListing_Inr [OF assms] obtain uid where
    u: "user = Some uid" and
    hs: "handleSubmit parseFloat parseInt d uid fd amen new_id now = Inr d'"
    by blast
  from handleSubmit_Inr [OF hs] obtain ty where
    ty: "f_type fd = Some ty" and
    ins: "insert_listing d (Some uid) new_id now
            (listingData parseFloat parseInt ty fd amen uid) = Inr d'"
    by blast
  define ld where "ld = listingData parseFloat parseInt ty fd amen uid"
  from insert_listing_Inr [OF ins] obtain p p' where
    p: "ld_price ld = Some p" "numeric_10_2 p = Some p'" and
    d': "d' = d\<lparr>listings := listings d @
                 [\<lparr> l_id = new_id,
                    owner_id = ld_owner_id ld,
                    l_type = ld_type ld,
                    title = ld_title ld,
                    description = ld_description ld,
                    price = p',
                    location = ld_location ld,
                    image_url = ld_image_url ld,
                    amenities = ld_amenities ld,
                    available_from = ld_available_from ld,
                    available_to = ld_available_to ld,
                    max_guests = ld_max_guests ld,
                    is_active = Some (ld_is_active ld),
                    l_created_at = now,
                    l_updated_at = now \<rparr>]\<rparr>"
    unfolding ld_def by blast
  define r where "r = \<lparr> l_id = new_id,
                    owner_id = ld_owner_id ld,
                    l_type = ld_type ld,
                    title = ld_title ld,
                    description = ld_description ld,
                    price = p',
                    location = ld_location ld,
                    image_url = ld_image_url ld,
                    amenities = ld_amenities ld,
                    available_from = ld_available_from ld,
                    available_to = ld_available_to ld,
                    max_guests = ld_max_guests ld,
                    is_active = Some (ld_is_active ld),
                    l_created_at = now,
                    l_updated_at = now \<rparr>"
  have act: "is_active r = Some True"
    by (simp add: r_def ld_def listingData_def)
  have "r \<in> set (listings d')"
    by (simp add: d' r_def)
  with act have mem: "r \<in> set (fetchListings d' auth)"
    by (simp add: set_fetchListings)
  have pf: "parseFloat (f_price fd) = Some p"
    using p(1) by (simp add: ld_def listingData_def)
  have sc: "has_scale_2 p \<longrightarrow> p' = p"
    using p(2) numeric_10_2_scale_2 by blast
  have fields: "l_id r = new_id" "owner_id r = uid" "l_created_at r = now" "l_updated_at r = now"
    "l_type r = ty" "title r = f_title fd" "location r = f_location fd" "price r = p'"
    "description r = (if f_description fd = [] then None else Some (f_description fd))"
    "image_url r = (if f_image_url fd = [] then None else Some (f_image_url fd))"
    "amenities r = (if amen = [] then None else Some amen)"
    "max_guests r = (if f_max_guests fd = [] then None else parseInt (f_max_guests fd))"
    "available_from r = (if f_available_from fd = [] then None else Some (f_available_from fd))"
    "available_to r = (if f_available_to fd = [] then None else Some (f_available_to fd))"
    by (simp_all add: r_def ld_def listingData_def or_null_def)
  show ?thesis
    apply (rule exI [of _ r])
    apply (rule exI [of _ ty])
    apply (rule exI [of _ p])
    using mem act u ty pf p(2) sc fields
    apply simp
    done
qed

lemma ex_fetch_created:
  "fetchListings (ex_db\<lparr>listings := [ex_listing, ex_listing_created]\<rparr>) None =
     [ex_listing_created, ex_listing]"
  by (simp add: fetchListings_def select_listings_def listings_select_policy_def
      anyone_can_view_active_def ex_listing_created_def ex_listing_def)

text \<open>The trip that user 7 creates is first on the home page, with its fields.\<close>

theorem create_then_fetchListings_witness:
  "CreateListing ex_parseFloat ex_parseInt ex_db (Some 7) (Some Subadmin) ex_form [] 2 100 =
     Inr (ex_db\<lparr>listings := [ex_listing, ex_listing_created]\<rparr>) \<and>
   fetchListings (ex_db\<lparr>listings := [ex_listing, ex_listing_created]\<rparr>) None =
     [ex_listing_created, ex_listing] \<and>
   (\<exists>r \<in> set [ex_listing_created, ex_listing].
      l_id r = 2 \<and> l_type r = Trip \<and> title r = ''Fjord tour'' \<and> location r = ''Bergen'' \<and>
      price r = 120 \<and> max_guests r = Some 4 \<and> available_from r = Some ''2024-06-01'' \<and>
      description r = None \<and> image_url r = None \<and> amenities r = None \<and> available_to r = None)"
proof -
  have sc: "has_scale_2 120"
    by (simp add: has_scale_2_def)
  from create_then_fetchListings [OF ex_create_ok, of None] obtain r ty p where
    r: "r \<in> set (fetchListings (ex_db\<lparr>listings := [ex_listing, ex_listing_created]\<rparr>) None)"
      "l_id r = 2" "f_type ex_form = Some ty" "l_type r = ty" "title r = f_title ex_form"
      "location r = f_location ex_form" "ex_parseFloat (f_price ex_form) = Some p"
      "has_scale_2 p \<longrightarrow> price r = p"
      "description r = (if f_description ex_form = [] then None else Some (f_description ex_form))"
      "image_url r = (if f_image_url ex_form = [] then None else Some (f_image_url ex_form))"
      "amenities r = (if [] = ([]::string list) then None else Some [])"
      "max_guests r = (if f_max_guests ex_form = [] then None else ex_parseInt (f_max_guests ex_form))"
      "available_from r =
         (if f_available_from ex_form = [] then None else Some (f_available_from ex_form))"
      "available_to r =
         (if f_available_to ex_form = [] then None else Some (f_available_to ex_form))"
    by blast
  from r sc have "r \<in> set [ex_listing_created, ex_listing] \<and>
      l_id r = 2 \<and> l_type r = Trip \<and> title r = ''Fjord tour'' \<and> location r = ''Bergen'' \<and>
      price r = 120 \<and> max_guests r = Some 4 \<and> available_from r = Some ''2024-06-01'' \<and>
      description r = None \<and> image_url r = None \<and> amenities r = None \<and> available_to r = None"
    by (simp add: ex_fetch_created ex_form_def ex_parseFloat_def ex_parseInt_def)
  then have "\<exists>r \<in> set [ex_listing_created, ex_listing].
      l_id r = 2 \<and> l_type r = Trip \<and> title r = ''Fjord tour'' \<and> location r = ''Bergen'' \<and>
      price r = 120 \<and> max_guests r = Some 4 \<and> available_from r = Some ''2024-06-01'' \<and>
      description r = None \<and> image_url r = None \<and> amenities r = None \<and> available_to r = None"
    by blast
  with ex_create_ok ex_fetch_created show ?thesis
    by blast
qed

text \<open>The claim fails on the empty fields: the listing was entered with an empty list of
  amenities and an empty description, and neither comes back empty.\<close>

theorem empty_amenities_counterexample:
  "CreateListing ex_parseFloat ex_parseInt ex_db (Some 7) (Some Subadmin) ex_form [] 2 100 =
     Inr (ex_db\<lparr>listings := [ex_listing, ex_listing_created]\<rparr>) \<and>
   fetchListings (ex_db\<lparr>listings := [ex_listing, ex_listing_created]\<rparr>) None =
     [ex_listing_created, ex_listing] \<and>
   l_id ex_listing_created = 2 \<and> l_id ex_listing = 1 \<and>
   amenities ex_listing_created \<noteq> Some [] \<and>
   f_description ex_form = [] \<and> description ex_listing_created \<noteq> Some []"
  using ex_create_ok ex_fetch_created
  by (simp add: ex_listing_created_def ex_listing_def ex_form_def)

section \<open>Properties of provisioning\<close>

lemma handle_new_user_Inr:
  assumes "handle_new_user d NEW pid rid now = Inr d'"
  shows "(nu_id NEW, User) \<notin> set (role_pairs d) \<and>
         nu_id NEW \<notin> set (map pr_user_id (profiles d)) \<and>
         role_pairs d' = role_pairs d @ [(nu_id NEW, User)] \<and>
         map pr_user_id (profiles d') = map pr_user_id (profiles d) @ [nu_id NEW]"
  using assms
  by (auto simp: handle_new_user_def role_pairs_def split: option.splits if_splits)

lemma handle_new_user_again:
  assumes "handle_new_user d NEW pid rid now = Inr d'"
  shows "handle_new_user d' NEW pid' rid' now' = Inl UniqueViolation"
proof -
  from assms obtain e where e: "nu_email NEW = Some e"
    by (auto simp: handle_new_user_def split: option.splits)
  from handle_new_user_Inr [OF assms]
  have "nu_id NEW \<in> set (map pr_user_id (profiles d'))"
    by simp
  with e show ?thesis
    by (simp add: handle_new_user_def)
qed

lemma handle_new_user_present:
  assumes "(nu_id NEW, User) \<in> set (role_pairs d)"
  shows "\<exists>e. handle_new_user d NEW pid rid now = Inl e"
  using assms by (simp add: handle_new_user_def split: option.splits)

lemma handle_new_user_fresh:
  assumes "nu_email NEW = Some e"
    and "pid \<notin> set (map pr_id (profiles d))" and "nu_id NEW \<notin> set (map pr_user_id (profiles d))"
    and "rid \<notin> set (map ur_id (user_roles d))" and "(nu_id NEW, User) \<notin> set (role_pairs d)"
  shows "\<exists>d'. handle_new_user d NEW pid rid now = Inr d'"
  using assms by (simp add: handle_new_user_def)

text \<open>
  C8. \<^verbatim>\<open>handle_new_user\<close> (the spec's assignDefaultRole) keeps the pairs
  (principal, role) distinct. When it succeeds, the pair (principal, user) was absent
  and is the one pair added, and every later invocation for the same principal fails
  with a unique violation, which changes nothing. When the pair is already present it
  fails. It succeeds for a principal with an email address and no profile or user role,
  given fresh keys.
\<close>

theorem handle_new_user_once:
  assumes "distinct (role_pairs d)"
  shows "(\<forall>d'. handle_new_user d NEW pid rid now = Inr d' \<longrightarrow>
            (nu_id NEW, User) \<notin> set (role_pairs d) \<and>
            role_pairs d' = role_pairs d @ [(nu_id NEW, User)] \<and>
            distinct (role_pairs d') \<and>
            (\<forall>pid' rid' now'. handle_new_user d' NEW pid' rid' now' = Inl UniqueViolation)) \<and>
         ((nu_id NEW, User) \<in> set (role_pairs d) \<longrightarrow>
            (\<exists>e. handle_new_user d NEW pid rid now = Inl e)) \<and>
         (nu_email NEW \<noteq> None \<and>
          pid \<notin> set (map pr_id (profiles d)) \<and> nu_id NEW \<notin> set (map pr_user_id (profiles d)) \<and>
          rid \<notin> set (map ur_id (user_roles d)) \<and> (nu_id NEW, User) \<notin> set (role_pairs d) \<longrightarrow>
            (\<exists>d'. handle_new_user d NEW pid rid now = Inr d'))"
proof (intro conjI allI impI)
  fix d'
  assume ok: "handle_new_user d NEW pid rid now = Inr d'"
  from handle_new_user_Inr [OF ok]
  show "(nu_id NEW, User) \<notin> set (role_pairs d)"
    and "role_pairs d' = role_pairs d @ [(nu_id NEW, User)]"
    by simp_all
  with assms show "distinct (role_pairs d')"
    by simp
  fix pid' rid' now'
  from ok show "handle_new_user d' NEW pid' rid' now' = Inl UniqueViolation"
    by (rule handle_new_user_again)
next
  assume "(nu_id NEW, User) \<in> set (role_pairs d)"
  then show "\<exists>e. handle_new_user d NEW pid rid now = Inl e"
    by (rule handle_new_user_present)
next
  assume "nu_email NEW \<noteq> None \<and>
          pid \<notin> set (map pr_id (profiles d)) \<and> nu_id NEW \<notin> set (map pr_user_id (profiles d)) \<and>
          rid \<notin> set (map ur_id (user_roles d)) \<and> (nu_id NEW, User) \<notin> set (role_pairs d)"
  then show "\<exists>d'. handle_new_user d NEW pid rid now = Inr d'"
    using handle_new_user_fresh [of NEW _ pid d rid now] by auto
qed

lemma ex_provision_ok:
  "handle_new_user ex_db ex_new_user 20 14 4 = Inr ex_db_provisioned"
  by (simp add: handle_new_user_def role_pairs_def ex_new_user_def ex_db_provisioned_def ex_db_def)

lemma ex_pairs:
  "role_pairs ex_db = [(7, User), (7, Subadmin), (9, Admin), (6, User)]"
  by (simp add: role_pairs_def ex_db_def)

lemma ex_provision_again:
  "handle_new_user ex_db_provisioned ex_new_user 21 15 5 = Inl UniqueViolation"
  by (simp add: handle_new_user_def role_pairs_def ex_new_user_def ex_db_provisioned_def ex_db_def)

text \<open>User 8 is provisioned once; the second invocation fails.\<close>

theorem handle_new_user_once_witness:
  "distinct (role_pairs ex_db) \<and>
   handle_new_user ex_db ex_new_user 20 14 4 = Inr ex_db_provisioned \<and>
   role_pairs ex_db_provisioned = [(7, User), (7, Subadmin), (9, Admin), (6, User), (8, User)] \<and>
   distinct (role_pairs ex_db_provisioned) \<and>
   handle_new_user ex_db_provisioned ex_new_user 21 15 5 = Inl UniqueViolation"
proof -
  have dist: "distinct (role_pairs ex_db)"
    by (simp add: ex_pairs)
  have id: "nu_id ex_new_user = 8"
    by (simp add: ex_new_user_def)
  from handle_new_user_once [OF dist, of ex_new_user 20 14 4] ex_provision_ok
  have "role_pairs ex_db_provisioned = role_pairs ex_db @ [(nu_id ex_new_user, User)] \<and>
      distinct (role_pairs ex_db_provisioned) \<and>
      handle_new_user ex_db_provisioned ex_new_user 21 15 5 = Inl UniqueViolation"
    by blast
  with dist ex_provision_ok show ?thesis
    by (simp add: ex_pairs id)
qed

text \<open>The claim fails on ``does not fail'': the second invocation for user 8 is an
  error.\<close>

theorem handle_new_user_twice_counterexample:
  "handle_new_user ex_db ex_new_user 20 14 4 = Inr ex_db_provisioned \<and>
   handle_new_user ex_db_provisioned ex_new_user 21 15 5 = Inl UniqueViolation"
  using ex_provision_ok ex_provision_again by simp

end
